theory Spec2Isabelle
  imports Main "HOL-Library.AList"
begin

section \<open>JavaScript values\<close>

text \<open>
  The values the two modules handle. Objects and arrays that are only built, passed on and
  read are held by value; the meeting profile objects, which the page controller mutates and
  shares, live in a store (see the page controller below). Numbers are the integral ones
  (HTTP status codes, lengths).
\<close>

datatype jsval =
    Undefined
  | Null
  | JBool bool
  | JNum int
  | JStr string
  | JArr "jsval list"
  | JObj "(string \<times> jsval) list"

text \<open>The conversion to boolean behind \<open>!v\<close>, \<open>if (v)\<close> and \<open>v || w\<close>.\<close>

fun truthy :: "jsval \<Rightarrow> bool" where
  "truthy Undefined = False"
| "truthy Null = False"
| "truthy (JBool b) = b"
| "truthy (JNum n) = (n \<noteq> 0)"
| "truthy (JStr s) = (s \<noteq> [])"
| "truthy (JArr xs) = True"
| "truthy (JObj kvs) = True"

text \<open>What the code can throw: \<open>new Error(msg)\<close>, or the runtime's TypeError.\<close>

datatype exn = Error string | TypeError string

text \<open>
  Reading the property \<open>k\<close> of a value held by value. Reading a property of \<open>undefined\<close> or
  \<open>null\<close> throws; a missing property reads as \<open>undefined\<close>. Only data properties are
  modelled, and \<open>length\<close> of strings and arrays.
\<close>

fun get_prop :: "jsval \<Rightarrow> string \<Rightarrow> exn + jsval" where
  "get_prop Undefined k = Inl (TypeError ''Cannot read property of undefined'')"
| "get_prop Null k = Inl (TypeError ''Cannot read property of null'')"
| "get_prop (JObj kvs) k = Inr (case map_of kvs k of None \<Rightarrow> Undefined | Some v \<Rightarrow> v)"
| "get_prop (JArr xs) k = Inr (if k = ''length'' then JNum (int (length xs)) else Undefined)"
| "get_prop (JStr s) k = Inr (if k = ''length'' then JNum (int (length s)) else Undefined)"
| "get_prop (JBool b) k = Inr Undefined"
| "get_prop (JNum n) k = Inr Undefined"

text \<open>
  \<open>_.keys(v).length\<close>: the number of own enumerable property names of an object or array;
  the library answers the empty list for a value that is not an object.
\<close>

fun keys_length :: "jsval \<Rightarrow> nat" where
  "keys_length (JObj kvs) = length (remdups (map fst kvs))"
| "keys_length (JArr xs) = length xs"
| "keys_length v = 0"


section \<open>The API client\<close>

subsection \<open>Callbacks and requests\<close>

text \<open>
  A function value is either the literal \<open>function() {}\<close> or a function the caller supplied
  (told apart by a number). The callback argument of an operation is a function or absent.
\<close>

datatype fn = Noop | Callback nat

type_synonym callback = "fn option"

text \<open>What running a handler leaves behind, in order.\<close>

datatype io = Invoked nat "jsval list" | ConsoleInfo string

text \<open>
  A run of handler code: what it did, and the exception it ended with, if any.
\<close>

type_synonym run = "io list \<times> exn option"

text \<open>\<open>callback(args)\<close>: calling an absent callback is a TypeError.\<close>

fun call :: "callback \<Rightarrow> jsval list \<Rightarrow> run" where
  "call None args = ([], Some (TypeError ''callback is not a function''))"
| "call (Some Noop) args = ([], None)"
| "call (Some (Callback k)) args = ([Invoked k args], None)"

text \<open>\<open>callback || function() {}\<close>\<close>

fun or_noop :: "callback \<Rightarrow> callback" where
  "or_noop None = Some Noop"
| "or_noop (Some f) = Some f"

text \<open>\<open>console.info(msg); rest\<close>\<close>

definition console_info :: "string \<Rightarrow> run \<Rightarrow> run" where
  "console_info m rest = (ConsoleInfo m # fst rest, snd rest)"

text \<open>Sequencing two runs: the second happens only if the first did not throw.\<close>

definition and_then :: "run \<Rightarrow> run \<Rightarrow> run" where
  "and_then a b = (case snd a of Some e \<Rightarrow> a | None \<Rightarrow> (fst a @ fst b, snd b))"

record jqXHR =
  status :: int
  responseText :: string

text \<open>
  The settings object handed to \<open>$.ajax\<close>. The url is kept as the operands of the string
  concatenation that builds it, left to right (the first operand is always a string literal,
  so every \<open>+\<close> is a concatenation); \<open>type\<close> is \<open>None\<close> and \<open>data\<close> is \<open>Undefined\<close> where
  the settings leave them out.
\<close>

record ajax =
  url :: "jsval list"
  type :: "string option"
  data :: jsval
  success :: "jsval \<Rightarrow> run"
  error :: "jqXHR \<Rightarrow> run"
  statusCode :: "(int \<times> run) list"

text \<open>\<open>{'code': jqXHR.status, 'msg': jqXHR.responseText}\<close>\<close>

definition err_object :: "jqXHR \<Rightarrow> jsval" where
  "err_object x = JObj [(''code'', JNum (status x)), (''msg'', JStr (responseText x))]"

text \<open>
  The transport completes a request once: with the response data through \<open>success\<close>, or with
  the failed request through \<open>error\<close> and then the \<open>statusCode\<close> entry of that status.
\<close>

datatype response = Succeeded jsval | Failed jqXHR

fun respond :: "ajax \<Rightarrow> response \<Rightarrow> run" where
  "respond r (Succeeded d) = success r d"
| "respond r (Failed x) =
     and_then (error r x)
       (case map_of (statusCode r) (status x) of None \<Rightarrow> ([], None) | Some h \<Rightarrow> h)"

subsection \<open>The operations\<close>

definition getMeeting :: "jsval \<Rightarrow> callback \<Rightarrow> exn + ajax" where
  "getMeeting meetingId callback =
     (if \<not> truthy meetingId then Inl (Error ''A valid meeting id should be provided'')
      else Inr \<lparr> url = [JStr ''/api/meeting/'', meetingId],
                 type = None,
                 data = Undefined,
                 success = (\<lambda>data. call callback [Null, data]),
                 error = (\<lambda>jqXHR. call callback [err_object jqXHR]),
                 statusCode = [] \<rparr>)"

definition createMeeting ::
  "jsval \<Rightarrow> jsval \<Rightarrow> jsval \<Rightarrow> jsval \<Rightarrow> jsval \<Rightarrow> jsval \<Rightarrow> jsval \<Rightarrow> jsval \<Rightarrow> callback \<Rightarrow> exn + ajax"
where
  "createMeeting displayName description record' allModerators waitModerator visibility
      managers members callback =
     (if \<not> truthy displayName then Inl (Error ''A valid description topic should be provided'')
      else let callback = or_noop callback in
        Inr \<lparr> url = [JStr ''/api/meeting/create''],
              type = Some ''POST'',
              data = JObj [(''displayName'', displayName), (''description'', description),
                           (''record'', record'), (''allModerators'', allModerators),
                           (''waitModerator'', waitModerator), (''visibility'', visibility),
                           (''managers'', managers), (''members'', members)],
              success = (\<lambda>data. call callback [Null, data]),
              error = (\<lambda>jqXHR. call callback [err_object jqXHR]),
              statusCode = [] \<rparr>)"

definition updateMeeting :: "jsval \<Rightarrow> jsval \<Rightarrow> callback \<Rightarrow> exn + ajax" where
  "updateMeeting meetingId params callback =
     (if \<not> truthy meetingId then Inl (Error ''A valid meeting id should be provided'')
      else if \<not> truthy params \<or> keys_length params = 0
        then Inl (Error ''At least one update parameter should be provided'')
      else let callback = or_noop callback in
        Inr \<lparr> url = [JStr ''/api/meeting/'', meetingId],
              type = Some ''POST'',
              data = params,
              success = (\<lambda>data. call callback [Null, data]),
              error = (\<lambda>jqXHR. call callback [err_object jqXHR]),
              statusCode = [] \<rparr>)"

definition startMeeting :: "jsval \<Rightarrow> callback \<Rightarrow> exn + ajax" where
  "startMeeting meetingId callback =
     (if \<not> truthy meetingId then Inl (Error ''A valid meeting id should be provided'')
      else let callback = or_noop callback in
        Inr \<lparr> url = [JStr ''/api/meeting/'', meetingId, JStr ''/start''],
              type = Some ''POST'',
              data = Undefined,
              success = (\<lambda>data. call callback [Null]),
              error = (\<lambda>jqXHR. call callback [err_object jqXHR]),
              statusCode = [] \<rparr>)"

definition deleteMeeting :: "jsval \<Rightarrow> callback \<Rightarrow> exn + ajax" where
  "deleteMeeting meetingId callback =
     (if \<not> truthy meetingId then Inl (Error ''A valid meeting id should be provided'')
      else let callback = or_noop callback in
        Inr \<lparr> url = [JStr ''/api/meeting/'', meetingId],
              type = Some ''DELETE'',
              data = Undefined,
              success = (\<lambda>data. call callback [Null]),
              error = (\<lambda>jqXHR. call callback [err_object jqXHR]),
              statusCode = [] \<rparr>)"

definition getMembers :: "jsval \<Rightarrow> jsval \<Rightarrow> jsval \<Rightarrow> callback \<Rightarrow> exn + ajax" where
  "getMembers meetingId start limit callback =
     (if \<not> truthy meetingId then Inl (Error ''A valid meeting id should be provided'')
      else Inr \<lparr> url = [JStr ''/api/meeting/'', meetingId, JStr ''/members''],
                 type = None,
                 data = JObj [(''start'', start), (''limit'', limit)],
                 success = (\<lambda>data. call callback [Null, data]),
                 error = (\<lambda>jqXHR. call callback [err_object jqXHR]),
                 statusCode = [] \<rparr>)"

definition updateMembers :: "jsval \<Rightarrow> jsval \<Rightarrow> callback \<Rightarrow> exn + ajax" where
  "updateMembers meetingId updatedMembers callback =
     (if \<not> truthy meetingId then Inl (Error ''A valid meeting id should be provided'')
      else if \<not> truthy updatedMembers \<or> keys_length updatedMembers = 0
        then Inl (Error ''The updatedMembers hash should contain at least 1 update'')
      else let callback = or_noop callback in
        Inr \<lparr> url = [JStr ''/api/meeting/'', meetingId, JStr ''/members''],
              type = Some ''POST'',
              data = updatedMembers,
              success = (\<lambda>data. call callback [Null]),
              error = (\<lambda>jqXHR. call callback [err_object jqXHR]),
              statusCode = [] \<rparr>)"

definition shareMeeting :: "jsval \<Rightarrow> jsval \<Rightarrow> callback \<Rightarrow> exn + ajax" where
  "shareMeeting meetingId principals callback =
     (if \<not> truthy meetingId then Inl (Error ''A meeting id should be provided'')
      else case get_prop principals ''length'' of
        Inl e \<Rightarrow> Inl e
      | Inr len \<Rightarrow>
          if \<not> truthy len then Inl (Error ''A user or group to share with should be provided'')
          else let callback = or_noop callback in
            Inr \<lparr> url = [JStr ''/api/meeting/'', meetingId, JStr ''/share''],
                  type = Some ''POST'',
                  data = JObj [(''members'', principals)],
                  success = (\<lambda>data. call callback [Null, data]),
                  error = (\<lambda>jqXHR. call callback [err_object jqXHR]),
                  statusCode = [] \<rparr>)"

definition getLibrary :: "jsval \<Rightarrow> jsval \<Rightarrow> jsval \<Rightarrow> callback \<Rightarrow> exn + ajax" where
  "getLibrary principalId start limit callback =
     (if \<not> truthy principalId then Inl (Error ''A user or group id should be provided'')
      else Inr \<lparr> url = [JStr ''/api/meeting/library/'', principalId],
                 type = None,
                 data = JObj [(''start'', start), (''limit'', limit)],
                 success = (\<lambda>data. call callback [Null, data]),
                 error = (\<lambda>jqXHR. call callback [err_object jqXHR]),
                 statusCode = [] \<rparr>)"

definition deleteMeetingFromLibrary :: "jsval \<Rightarrow> jsval \<Rightarrow> callback \<Rightarrow> exn + ajax" where
  "deleteMeetingFromLibrary principalId meetingId callback =
     (if \<not> truthy principalId then Inl (Error ''A valid user or group id should be provided'')
      else if \<not> truthy meetingId then Inl (Error ''A valid meeting id should be provided'')
      else let callback = or_noop callback in
        Inr \<lparr> url = [JStr ''/api/meeting/library/'', principalId, JStr ''/'', meetingId],
              type = Some ''DELETE'',
              data = Undefined,
              success = (\<lambda>data. call callback [Null]),
              error = (\<lambda>jqXHR. call callback [err_object jqXHR]),
              statusCode = [] \<rparr>)"

definition endMeeting :: "jsval \<Rightarrow> callback \<Rightarrow> exn + ajax" where
  "endMeeting meetingId callback =
     (if \<not> truthy meetingId then Inl (Error ''A valid meeting id should be provided'')
      else let callback = or_noop callback in
        Inr \<lparr> url = [JStr ''/api/meeting/'', meetingId, JStr ''/end''],
              type = Some ''GET'',
              data = Undefined,
              success = (\<lambda>data. call callback [Null]),
              error = (\<lambda>jqXHR. call callback [err_object jqXHR]),
              statusCode = [] \<rparr>)"

definition infoMeeting :: "jsval \<Rightarrow> callback \<Rightarrow> exn + ajax" where
  "infoMeeting meetingId callback =
     (if \<not> truthy meetingId then Inl (Error ''A valid meeting id should be provided'')
      else let callback = or_noop callback in
        Inr \<lparr> url = [JStr ''/api/meeting/'', meetingId, JStr ''/info''],
              type = Some ''GET'',
              data = Undefined,
              success = (\<lambda>response. call callback [Null, response]),
              error = (\<lambda>jqXHR. call callback [err_object jqXHR, Null]),
              statusCode = [] \<rparr>)"

definition getRecording :: "jsval \<Rightarrow> callback \<Rightarrow> exn + ajax" where
  "getRecording meetingId callback =
     (if \<not> truthy meetingId then Inl (Error ''A valid meeting id should be provided'')
      else let callback = or_noop callback in
        Inr \<lparr> url = [JStr ''/api/recording/'', meetingId],
              type = Some ''GET'',
              data = Undefined,
              success = (\<lambda>response. console_info ''Success'' (call callback [Null, response])),
              error = (\<lambda>jqXHR. call callback [err_object jqXHR, Null]),
              statusCode = [(404, console_info ''No recording found'' ([], None))] \<rparr>)"

definition updateRecording :: "jsval \<Rightarrow> jsval \<Rightarrow> callback \<Rightarrow> exn + ajax" where
  "updateRecording recordingId publish callback =
     (if \<not> truthy recordingId then Inl (Error ''A valid recording id should be provided'')
      else let callback = or_noop callback in
        Inr \<lparr> url = [JStr ''/api/recording/'', recordingId],
              type = Some ''PATCH'',
              data = JObj [(''publish'', JBool (\<not> truthy publish))],
              success = (\<lambda>response. console_info ''Success'' (call callback [Null, response])),
              error = (\<lambda>jqXHR. console_info ''Error'' (call callback [err_object jqXHR, Null])),
              statusCode = [] \<rparr>)"

definition deleteRecording :: "jsval \<Rightarrow> callback \<Rightarrow> exn + ajax" where
  "deleteRecording recordingId callback =
     (if \<not> truthy recordingId then Inl (Error ''A valid recording id should be provided'')
      else let callback = or_noop callback in
        Inr \<lparr> url = [JStr ''/api/recording/'', recordingId],
              type = Some ''DELETE'',
              data = Undefined,
              success = (\<lambda>response. console_info ''Success'' (call callback [Null, response])),
              error = (\<lambda>jqXHR. console_info ''Error'' (call callback [err_object jqXHR, Null])),
              statusCode = [] \<rparr>)"

definition getInvitations :: "jsval \<Rightarrow> callback \<Rightarrow> exn + ajax" where
  "getInvitations meetingId callback =
     (if \<not> truthy meetingId then Inl (Error ''A valid meeting id should be provided'')
      else Inr \<lparr> url = [JStr ''/api/meeting/'', meetingId, JStr ''/invitations''],
                 type = None,
                 data = Undefined,
                 success = (\<lambda>data. call callback [Null, data]),
                 error = (\<lambda>jqXHR. call callback [err_object jqXHR]),
                 statusCode = [] \<rparr>)"

definition resendInvitation :: "jsval \<Rightarrow> jsval \<Rightarrow> callback \<Rightarrow> exn + ajax" where
  "resendInvitation meetingId email callback =
     (if \<not> truthy meetingId then Inl (Error ''A valid meeting id should be provided'')
      else Inr \<lparr> url = [JStr ''/api/meeting/'', meetingId, JStr ''/invitations/'', email,
                        JStr ''/resend''],
                 type = Some ''POST'',
                 data = Undefined,
                 success = (\<lambda>data. call callback []),
                 error = (\<lambda>jqXHR. call callback [err_object jqXHR]),
                 statusCode = [] \<rparr>)"

subsection \<open>The module's exports\<close>

text \<open>
  One call of an exported operation with its arguments, so that a statement can range over
  every operation of the client.
\<close>

datatype invocation =
    GetMeeting jsval callback
  | CreateMeeting jsval jsval jsval jsval jsval jsval jsval jsval callback
  | UpdateMeeting jsval jsval callback
  | StartMeeting jsval callback
  | DeleteMeeting jsval callback
  | GetMembers jsval jsval jsval callback
  | UpdateMembers jsval jsval callback
  | ShareMeeting jsval jsval callback
  | GetLibrary jsval jsval jsval callback
  | DeleteMeetingFromLibrary jsval jsval callback
  | EndMeeting jsval callback
  | InfoMeeting jsval callback
  | GetRecording jsval callback
  | UpdateRecording jsval jsval callback
  | DeleteRecording jsval callback
  | GetInvitations jsval callback
  | ResendInvitation jsval jsval callback

fun exports :: "invocation \<Rightarrow> exn + ajax" where
  "exports (GetMeeting meetingId cb) = getMeeting meetingId cb"
| "exports (CreateMeeting displayName description rec allModerators waitModerator visibility
      managers members cb) =
     createMeeting displayName description rec allModerators waitModerator visibility
       managers members cb"
| "exports (UpdateMeeting meetingId params cb) = updateMeeting meetingId params cb"
| "exports (StartMeeting meetingId cb) = startMeeting meetingId cb"
| "exports (DeleteMeeting meetingId cb) = deleteMeeting meetingId cb"
| "exports (GetMembers meetingId start limit cb) = getMembers meetingId start limit cb"
| "exports (UpdateMembers meetingId updatedMembers cb) =
     updateMembers meetingId updatedMembers cb"
| "exports (ShareMeeting meetingId principals cb) = shareMeeting meetingId principals cb"
| "exports (GetLibrary principalId start limit cb) = getLibrary principalId start limit cb"
| "exports (DeleteMeetingFromLibrary principalId meetingId cb) =
     deleteMeetingFromLibrary principalId meetingId cb"
| "exports (EndMeeting meetingId cb) = endMeeting meetingId cb"
| "exports (InfoMeeting meetingId cb) = infoMeeting meetingId cb"
| "exports (GetRecording meetingId cb) = getRecording meetingId cb"
| "exports (UpdateRecording recordingId publish cb) = updateRecording recordingId publish cb"
| "exports (DeleteRecording recordingId cb) = deleteRecording recordingId cb"
| "exports (GetInvitations meetingId cb) = getInvitations meetingId cb"
| "exports (ResendInvitation meetingId email cb) = resendInvitation meetingId email cb"

text \<open>The callback argument of a call.\<close>

fun callback_arg :: "invocation \<Rightarrow> callback" where
  "callback_arg (GetMeeting meetingId cb) = cb"
| "callback_arg (CreateMeeting displayName description rec allModerators waitModerator
      visibility managers members cb) = cb"
| "callback_arg (UpdateMeeting meetingId params cb) = cb"
| "callback_arg (StartMeeting meetingId cb) = cb"
| "callback_arg (DeleteMeeting meetingId cb) = cb"
| "callback_arg (GetMembers meetingId start limit cb) = cb"
| "callback_arg (UpdateMembers meetingId updatedMembers cb) = cb"
| "callback_arg (ShareMeeting meetingId principals cb) = cb"
| "callback_arg (GetLibrary principalId start limit cb) = cb"
| "callback_arg (DeleteMeetingFromLibrary principalId meetingId cb) = cb"
| "callback_arg (EndMeeting meetingId cb) = cb"
| "callback_arg (InfoMeeting meetingId cb) = cb"
| "callback_arg (GetRecording meetingId cb) = cb"
| "callback_arg (UpdateRecording recordingId publish cb) = cb"
| "callback_arg (DeleteRecording recordingId cb) = cb"
| "callback_arg (GetInvitations meetingId cb) = cb"
| "callback_arg (ResendInvitation meetingId email cb) = cb"

text \<open>
  The operations whose documentation marks the callback as required (\<open>callback\<close> without
  brackets): the four reads and the resending of an invitation.
\<close>

fun callback_required :: "invocation \<Rightarrow> bool" where
  "callback_required (GetMeeting meetingId cb) = True"
| "callback_required (GetMembers meetingId start limit cb) = True"
| "callback_required (GetLibrary principalId start limit cb) = True"
| "callback_required (GetInvitations meetingId cb) = True"
| "callback_required (ResendInvitation meetingId email cb) = True"
| "callback_required c = False"

text \<open>
  A collection argument that is absent or empty: \<open>undefined\<close>, \<open>null\<close>, an object without
  keys or an array without elements.
\<close>

fun absent_or_empty :: "jsval \<Rightarrow> bool" where
  "absent_or_empty Undefined = True"
| "absent_or_empty Null = True"
| "absent_or_empty (JObj kvs) = (kvs = [])"
| "absent_or_empty (JArr xs) = (xs = [])"
| "absent_or_empty v = False"

text \<open>
  A call that lacks a required argument: an identifier or topic that is absent or empty
  (any value that converts to false), or a collection that is absent or empty.
\<close>

fun lacks_required :: "invocation \<Rightarrow> bool" where
  "lacks_required (GetMeeting meetingId cb) = (\<not> truthy meetingId)"
| "lacks_required (CreateMeeting displayName description rec allModerators waitModerator
      visibility managers members cb) = (\<not> truthy displayName)"
| "lacks_required (UpdateMeeting meetingId params cb) =
     (\<not> truthy meetingId \<or> absent_or_empty params)"
| "lacks_required (StartMeeting meetingId cb) = (\<not> truthy meetingId)"
| "lacks_required (DeleteMeeting meetingId cb) = (\<not> truthy meetingId)"
| "lacks_required (GetMembers meetingId start limit cb) = (\<not> truthy meetingId)"
| "lacks_required (UpdateMembers meetingId updatedMembers cb) =
     (\<not> truthy meetingId \<or> absent_or_empty updatedMembers)"
| "lacks_required (ShareMeeting meetingId principals cb) =
     (\<not> truthy meetingId \<or> absent_or_empty principals)"
| "lacks_required (GetLibrary principalId start limit cb) = (\<not> truthy principalId)"
| "lacks_required (DeleteMeetingFromLibrary principalId meetingId cb) =
     (\<not> truthy principalId \<or> \<not> truthy meetingId)"
| "lacks_required (EndMeeting meetingId cb) = (\<not> truthy meetingId)"
| "lacks_required (InfoMeeting meetingId cb) = (\<not> truthy meetingId)"
| "lacks_required (GetRecording meetingId cb) = (\<not> truthy meetingId)"
| "lacks_required (UpdateRecording recordingId publish cb) = (\<not> truthy recordingId)"
| "lacks_required (DeleteRecording recordingId cb) = (\<not> truthy recordingId)"
| "lacks_required (GetInvitations meetingId cb) = (\<not> truthy meetingId)"
| "lacks_required (ResendInvitation meetingId email cb) = (\<not> truthy meetingId)"

text \<open>
  A call followed by the transport's completion of the request it issued, if it issued one.
\<close>

definition settled :: "exn + ajax \<Rightarrow> response \<Rightarrow> exn + run" where
  "settled res resp = (case res of Inl e \<Rightarrow> Inl e | Inr r \<Rightarrow> Inr (respond r resp))"

text \<open>The calls of caller-supplied functions in a run, in order.\<close>

fun invocations :: "io list \<Rightarrow> (nat \<times> jsval list) list" where
  "invocations [] = []"
| "invocations (Invoked k args # es) = (k, args) # invocations es"
| "invocations (ConsoleInfo m # es) = invocations es"

text \<open>
  The argument lists to compare the handlers with, operation by operation. On success: the
  operations that hand on the response body pass \<open>null\<close> and the body, those without a
  body to hand on pass \<open>null\<close> alone, and \<open>resendInvitation\<close> passes nothing. On failure:
  the error object, followed by \<open>null\<close> for \<open>infoMeeting\<close> and the three recording
  operations.
\<close>

fun success_arguments :: "invocation \<Rightarrow> jsval \<Rightarrow> jsval list" where
  "success_arguments (StartMeeting meetingId cb) body = [Null]"
| "success_arguments (DeleteMeeting meetingId cb) body = [Null]"
| "success_arguments (UpdateMembers meetingId updatedMembers cb) body = [Null]"
| "success_arguments (DeleteMeetingFromLibrary principalId meetingId cb) body = [Null]"
| "success_arguments (EndMeeting meetingId cb) body = [Null]"
| "success_arguments (ResendInvitation meetingId email cb) body = []"
| "success_arguments c body = [Null, body]"

fun failure_arguments :: "invocation \<Rightarrow> jqXHR \<Rightarrow> jsval list" where
  "failure_arguments (InfoMeeting meetingId cb) x = [err_object x, Null]"
| "failure_arguments (GetRecording meetingId cb) x = [err_object x, Null]"
| "failure_arguments (UpdateRecording recordingId publish cb) x = [err_object x, Null]"
| "failure_arguments (DeleteRecording recordingId cb) x = [err_object x, Null]"
| "failure_arguments c x = [err_object x]"


section \<open>The page controller\<close>

subsection \<open>Meeting id and base url\<close>

text \<open>\<open>s.split(c)\<close>: the pieces of \<open>s\<close> between the occurrences of \<open>c\<close>.\<close>

fun split :: "char \<Rightarrow> string \<Rightarrow> string list" where
  "split c [] = [[]]"
| "split c (x # xs) =
     (if x = c then [] # split c xs
      else (case split c xs of [] \<Rightarrow> [[x]] | w # ws \<Rightarrow> (x # w) # ws))"

text \<open>
  Modelled from the spec: the URL plugin behind \<open>$.url()\<close> is not among the sources. The
  spec speaks of the path segments of the location; the plugin's documented behaviour is to
  take the path without its leading and trailing slashes, split it at \<open>/\<close>, and to answer
  \<open>segment(n)\<close> with the n-th piece counted from 1, or \<open>undefined\<close> when there is none.
\<close>

definition path_segments :: "string \<Rightarrow> string list" where
  "path_segments path =
     split (CHR ''/'')
       (rev (dropWhile (\<lambda>c. c = CHR ''/'') (rev (dropWhile (\<lambda>c. c = CHR ''/'') path))))"

definition segment :: "string \<Rightarrow> nat \<Rightarrow> string option" where
  "segment path n =
     (let segs = path_segments path
      in if 0 < n \<and> n \<le> length segs then Some (segs ! (n - 1)) else None)"

text \<open>A segment as an operand of a string concatenation.\<close>

fun segment_str :: "string option \<Rightarrow> string" where
  "segment_str None = ''undefined''"
| "segment_str (Some s) = s"

definition meetingId :: "string \<Rightarrow> string" where
  "meetingId path = ''d:'' @ segment_str (segment path 2) @ '':'' @ segment_str (segment path 3)"

definition baseUrl :: "string \<Rightarrow> string" where
  "baseUrl path =
     ''/meeting/'' @ segment_str (segment path 2) @ ''/'' @ segment_str (segment path 3)"

subsection \<open>State\<close>

text \<open>
  Meeting profiles are objects shared by reference: the push handler writes into the object
  it received and then hands that same object on. So they live in a store, and the
  controller's variables hold references (\<open>None\<close> is \<open>null\<close> or \<open>undefined\<close>).
\<close>

type_synonym ref = nat

type_synonym jsobj = "(string \<times> jsval) list"

text \<open>An activity of a push message: \<open>actor.id\<close>, \<open>oae:activityType\<close> and \<open>object\<close>.\<close>

record activity =
  actor_id :: string
  activityType :: string
  object :: ref

datatype destination = accessdenied | notfound

text \<open>
  What the controller does to its collaborators, in order. A triggered event carries its name
  as the operands of the concatenation that builds it, and the profile it passes.
\<close>

datatype effect =
    Redirect destination
  | Render "ref option"
  | TriggerLhNavigation jsval "ref option" string
  | OnLhNavigationReady
  | OnContextGet
  | Trigger "jsval list" "ref option"
  | ShowPage
  | Subscribe string jsval
  | Empty
  | InsertWidget string "ref option"

record page =
  heap :: "ref \<Rightarrow> jsobj"
  me_id :: jsval
  path :: string
  meetingProfile :: "ref option"
  lhNavPages :: "(jsval \<times> ref option) option"
  contextGet :: bool
  subscribed :: bool
  widgetContainer :: "(string \<times> ref option) list"
  clipContainer :: "ref option list"
  trace :: "effect list"

text \<open>
  \<open>heap\<close> is the object store, \<open>me_id\<close> is \<open>oae.data.me.id\<close>, \<open>path\<close> the path of the
  location. \<open>lhNavPages\<close> holds the title and settings captured by the handler of
  \<open>oae.ready.lhnavigation\<close> once it is registered, \<open>contextGet\<close> and \<open>subscribed\<close> say
  whether the handler of \<open>oae.context.get\<close> and the push subscription exist.
  \<open>widgetContainer\<close> is the content of \<open>#lhnavigation-widget-meeting\<close> (widget name and
  widget data), \<open>clipContainer\<close> that of \<open>#meeting-clip-container\<close>.
\<close>

text \<open>
  The result of running controller code: the state it ends in, or the exception it threw
  together with the state at that moment.
\<close>

type_synonym outcome = "(exn \<times> page) + page"

definition then_run :: "outcome \<Rightarrow> (page \<Rightarrow> outcome) \<Rightarrow> outcome" where
  "then_run r f = (case r of Inl x \<Rightarrow> Inl x | Inr st \<Rightarrow> f st)"

definition log :: "effect list \<Rightarrow> page \<Rightarrow> page" where
  "log es st = st\<lparr>trace := trace st @ es\<rparr>"

text \<open>\<open>o.k\<close> and \<open>o.k = v\<close> on an object of the store.\<close>

definition field :: "jsobj \<Rightarrow> string \<Rightarrow> jsval" where
  "field obj k = (case map_of obj k of None \<Rightarrow> Undefined | Some v \<Rightarrow> v)"

definition get_field :: "page \<Rightarrow> ref option \<Rightarrow> string \<Rightarrow> exn + jsval" where
  "get_field st r k =
     (case r of
        None \<Rightarrow> Inl (TypeError ''Cannot read property of null'')
      | Some a \<Rightarrow> Inr (field (heap st a) k))"

definition set_field :: "ref \<Rightarrow> string \<Rightarrow> jsval \<Rightarrow> page \<Rightarrow> page" where
  "set_field a k v st = st\<lparr>heap := (heap st)(a := AList.update k v (heap st a))\<rparr>"

subsection \<open>Collaborators\<close>

text \<open>
  Modelled from the spec: the template renderer, jQuery and the widget loader are not among
  the sources. The spec has the summary view re-rendered from the profile, and the widget
  instance refreshed by clearing its container and reinserting it with the profile as its
  configuration: rendering replaces the content of the output container, \<open>empty\<close> removes
  the container's content, \<open>insertWidget\<close> adds one instance to it.
\<close>

definition render :: "ref option \<Rightarrow> page \<Rightarrow> page" where
  "render meeting st = log [Render meeting] (st\<lparr>clipContainer := [meeting]\<rparr>)"

definition empty :: "page \<Rightarrow> page" where
  "empty st = log [Empty] (st\<lparr>widgetContainer := []\<rparr>)"

definition insertWidget :: "string \<Rightarrow> ref option \<Rightarrow> page \<Rightarrow> page" where
  "insertWidget name widgetData st =
     log [InsertWidget name widgetData]
       (st\<lparr>widgetContainer := widgetContainer st @ [(name, widgetData)]\<rparr>)"

subsection \<open>Initialisation\<close>

definition setUpNavigation :: "page \<Rightarrow> outcome" where
  "setUpNavigation st =
     (case get_field st (meetingProfile st) ''displayName'' of
        Inl e \<Rightarrow> Inl (e, st)
      | Inr title \<Rightarrow>
          Inr (log [TriggerLhNavigation title (meetingProfile st) (baseUrl (path st)),
                    OnLhNavigationReady]
                 (st\<lparr>lhNavPages := Some (title, meetingProfile st)\<rparr>)))"

text \<open>The handler of \<open>oae.ready.lhnavigation\<close>, with the pages it captured.\<close>

definition on_lhnavigation_ready :: "page \<Rightarrow> page" where
  "on_lhnavigation_ready st =
     (case lhNavPages st of
        None \<Rightarrow> st
      | Some (title, settings) \<Rightarrow> log [TriggerLhNavigation title settings (baseUrl (path st))] st)"

definition setUpContext :: "page \<Rightarrow> page" where
  "setUpContext st =
     log [OnContextGet, Trigger [JStr ''oae.context.send''] (meetingProfile st)]
       (st\<lparr>contextGet := True\<rparr>)"

text \<open>
  The handler of \<open>oae.context.get\<close>; it exists once \<open>setUpContext\<close> has registered it.
\<close>

definition on_context_get :: "jsval \<Rightarrow> page \<Rightarrow> page" where
  "on_context_get widgetId st =
     (if \<not> contextGet st then st
      else if truthy widgetId
        then log [Trigger [JStr ''oae.context.send.'', widgetId] (meetingProfile st)] st
      else log [Trigger [JStr ''oae.context.send''] (meetingProfile st)] st)"

definition setUpClip :: "page \<Rightarrow> page" where
  "setUpClip st = render (meetingProfile st) st"

definition supportedActivities :: "string list" where
  "supportedActivities = [''meeting-update'', ''meeting-update-visibility'']"

definition setUpPushNotifications :: "page \<Rightarrow> outcome" where
  "setUpPushNotifications st =
     (case get_field st (meetingProfile st) ''signature'' of
        Inl e \<Rightarrow> Inl (e, st)
      | Inr signature \<Rightarrow>
          Inr (log [Subscribe (meetingId (path st)) signature] (st\<lparr>subscribed := True\<rparr>)))"

subsection \<open>Refreshing the profile\<close>

definition refreshMeetingTopic :: "page \<Rightarrow> page" where
  "refreshMeetingTopic st = insertWidget ''meeting'' (meetingProfile st) (empty st)"

definition refreshMeetingProfile :: "ref option \<Rightarrow> page \<Rightarrow> page" where
  "refreshMeetingProfile updatedMeeting st =
     setUpClip (refreshMeetingTopic (st\<lparr>meetingProfile := updatedMeeting\<rparr>))"

text \<open>The handler of \<open>oae.editmeeting.done\<close>, registered when the script loads.\<close>

definition on_editmeeting_done :: "ref option \<Rightarrow> page \<Rightarrow> page" where
  "on_editmeeting_done updatedMeeting st = refreshMeetingProfile updatedMeeting st"

text \<open>The handler of \<open>oae.manageaccess.done\<close>, registered when the script loads.\<close>

definition on_manageaccess_done :: "page \<Rightarrow> page" where
  "on_manageaccess_done st = setUpClip st"

text \<open>
  \<open>$(document).trigger('oae.editmeeting.done', updatedMeeting)\<close> from within the
  controller: the event goes out and the controller's own handler runs.
\<close>

definition trigger_editmeeting_done :: "ref option \<Rightarrow> page \<Rightarrow> page" where
  "trigger_editmeeting_done updatedMeeting st =
     on_editmeeting_done updatedMeeting
       (log [Trigger [JStr ''oae.editmeeting.done''] updatedMeeting] st)"

subsection \<open>Push notifications\<close>

text \<open>\<open>activity.object.k = meetingProfile.k\<close>\<close>

definition copy_field :: "string \<Rightarrow> ref \<Rightarrow> page \<Rightarrow> outcome" where
  "copy_field k obj st =
     (case get_field st (meetingProfile st) k of
        Inl e \<Rightarrow> Inl (e, st)
      | Inr v \<Rightarrow> Inr (set_field obj k v st))"

text \<open>The function given to \<open>oae.api.push.subscribe\<close>.\<close>

fun on_push :: "activity list \<Rightarrow> page \<Rightarrow> outcome" where
  "on_push [] st = Inl (TypeError ''Cannot read property of undefined'', st)"
| "on_push (activity # rest) st =
     (if JStr (actor_id activity) \<noteq> me_id st
         \<and> activityType activity \<in> set supportedActivities
      then
        then_run (copy_field ''canShare'' (object activity) st) (\<lambda>st.
        then_run (copy_field ''canPost'' (object activity) st) (\<lambda>st.
        then_run (copy_field ''isManager'' (object activity) st) (\<lambda>st.
        Inr (trigger_editmeeting_done (Some (object activity)) st))))
      else Inr st)"

subsection \<open>Loading the profile\<close>

text \<open>The callback the controller passes to \<open>getMeeting\<close>.\<close>

definition getMeeting_callback :: "jsval \<Rightarrow> ref option \<Rightarrow> page \<Rightarrow> outcome" where
  "getMeeting_callback err profile st =
     (if truthy err then
        (case get_prop err ''code'' of
           Inl e \<Rightarrow> Inl (e, st)
         | Inr code \<Rightarrow>
             if code = JNum 401 then Inr (log [Redirect accessdenied] st)
             else Inr (log [Redirect notfound] st))
      else
        then_run (setUpNavigation (setUpClip (st\<lparr>meetingProfile := profile\<rparr>))) (\<lambda>st.
        setUpPushNotifications (log [ShowPage] (setUpContext st))))"

text \<open>
  The page as the script leaves it when it has run: no profile yet, the two static handlers
  in place, the request for the profile under way.
\<close>

definition loading :: "string \<Rightarrow> jsval \<Rightarrow> (ref \<Rightarrow> jsobj) \<Rightarrow> page" where
  "loading p me h =
     \<lparr> heap = h, me_id = me, path = p, meetingProfile = None, lhNavPages = None,
       contextGet = False, subscribed = False, widgetContainer = [], clipContainer = [],
       trace = [] \<rparr>"

text \<open>The state a run ends in, thrown or not, and the profile object current in a state.\<close>

fun final :: "outcome \<Rightarrow> page" where
  "final (Inl (e, st)) = st"
| "final (Inr st) = st"

definition current_profile :: "page \<Rightarrow> jsobj option" where
  "current_profile st = map_option (heap st) (meetingProfile st)"

subsection \<open>A sample page\<close>

text \<open>
  A store with two profile objects, the page after the first of them has been loaded, and
  two activities about the second: one by another user, one by the viewing user.
\<close>

definition sample_heap :: "ref \<Rightarrow> jsobj" where
  "sample_heap =
     (\<lambda>a. [])
       (1 := [(''id'', JStr ''d:cam:abc''), (''displayName'', JStr ''Weekly''),
              (''canShare'', JBool True), (''canPost'', JBool True), (''isManager'', JBool True),
              (''signature'', JStr ''s1'')],
        2 := [(''id'', JStr ''d:cam:abc''), (''displayName'', JStr ''Monthly''),
              (''canShare'', JBool False)])"

definition sample_page :: page where
  "sample_page =
     final (getMeeting_callback Null (Some 1)
       (loading ''/meeting/cam/abc'' (JStr ''u:cam:me'') sample_heap))"

definition sample_activity :: activity where
  "sample_activity =
     \<lparr> actor_id = ''u:cam:other'', activityType = ''meeting-update'', object = 2 \<rparr>"

definition own_activity :: activity where
  "own_activity =
     \<lparr> actor_id = ''u:cam:me'', activityType = ''meeting-update'', object = 2 \<rparr>"


section \<open>Properties of the API client\<close>

lemmas op_defs = getMeeting_def createMeeting_def updateMeeting_def startMeeting_def
  deleteMeeting_def getMembers_def updateMembers_def shareMeeting_def getLibrary_def
  deleteMeetingFromLibrary_def endMeeting_def infoMeeting_def getRecording_def
  updateRecording_def deleteRecording_def getInvitations_def resendInvitation_def

lemma absent_or_empty_keys: "absent_or_empty v \<Longrightarrow> \<not> truthy v \<or> keys_length v = 0"
  by (cases v) auto

lemma absent_or_empty_length:
  "absent_or_empty v \<Longrightarrow>
   (case get_prop v ''length'' of Inl e \<Rightarrow> True | Inr len \<Rightarrow> \<not> truthy len)"
  by (cases v) auto

subsection \<open>Absent callbacks\<close>

text \<open>
  C3, as stated, fails: \<open>getMeeting\<close> keeps an absent callback as it is, and when the
  transport succeeds its success handler calls \<open>undefined\<close>.
\<close>

theorem absent_callback_counterexample:
  "settled (getMeeting (JStr ''d:cam:abc'') None)
     (Succeeded (JObj [(''id'', JStr ''d:cam:abc'')]))
   = Inr ([], Some (TypeError ''callback is not a function''))"
  by (simp add: settled_def getMeeting_def)

text \<open>
  C3, amended: for every operation whose documentation marks the callback as optional (all
  but \<open>getMeeting\<close>, \<open>getMembers\<close>, \<open>getLibrary\<close>, \<open>getInvitations\<close> and
  \<open>resendInvitation\<close>), an absent callback is replaced with a no-op: whatever the transport
  answers to the request, success or failure, the handlers run to their end without an
  exception and without calling any function of the caller.
\<close>

theorem optional_callback:
  assumes "\<not> callback_required c" and "callback_arg c = None"
    and "settled (exports c) resp = Inr run"
  shows "snd run = None \<and> invocations (fst run) = []"
  using assms
  by (cases c; cases resp)
     (auto simp: settled_def op_defs Let_def and_then_def console_info_def
           split: if_splits sum.splits)

theorem optional_callback_witness:
  "\<not> callback_required (UpdateRecording (JStr ''r1'') (JBool True) None)
   \<and> callback_arg (UpdateRecording (JStr ''r1'') (JBool True) None) = None
   \<and> settled (exports (UpdateRecording (JStr ''r1'') (JBool True) None))
        (Failed \<lparr>status = 500, responseText = ''down''\<rparr>) = Inr ([ConsoleInfo ''Error''], None)
   \<and> snd ([ConsoleInfo ''Error''], None :: exn option) = None
   \<and> invocations (fst ([ConsoleInfo ''Error''], None :: exn option)) = []"
  using optional_callback[of "UpdateRecording (JStr ''r1'') (JBool True) None"
      "Failed \<lparr>status = 500, responseText = ''down''\<rparr>" "([ConsoleInfo ''Error''], None)"]
  by (simp add: settled_def updateRecording_def and_then_def console_info_def)

subsection \<open>Required arguments\<close>

text \<open>
  C4: every operation called with a required identifier or topic absent or empty, or with a
  required collection (the \<open>params\<close> of \<open>updateMeeting\<close>, the \<open>updatedMembers\<close> of
  \<open>updateMembers\<close>, the \<open>principals\<close> of \<open>shareMeeting\<close>) absent or empty, throws: the
  call ends with an exception, so no request is handed to the transport and no handler that
  could call the callback exists.
\<close>

theorem required_arguments: "lacks_required c \<Longrightarrow> isl (exports c)"
proof (cases c)
  case (UpdateMeeting m p cb)
  assume "lacks_required c"
  with UpdateMeeting absent_or_empty_keys[of p] show ?thesis
    by (auto simp: updateMeeting_def)
next
  case (UpdateMembers m p cb)
  assume "lacks_required c"
  with UpdateMembers absent_or_empty_keys[of p] show ?thesis
    by (auto simp: updateMembers_def)
next
  case (ShareMeeting m p cb)
  assume "lacks_required c"
  with ShareMeeting absent_or_empty_length[of p] show ?thesis
    by (auto simp: shareMeeting_def split: sum.splits)
qed (auto simp: op_defs)

theorem required_arguments_witness:
  "lacks_required (ShareMeeting (JStr ''d:cam:abc'') (JArr []) (Some (Callback 0)))
   \<and> lacks_required (UpdateMeeting Undefined (JObj [(''displayName'', JStr ''x'')]) None)
   \<and> isl (exports (ShareMeeting (JStr ''d:cam:abc'') (JArr []) (Some (Callback 0))))
   \<and> isl (exports (UpdateMeeting Undefined (JObj [(''displayName'', JStr ''x'')]) None))"
  using required_arguments[of "ShareMeeting (JStr ''d:cam:abc'') (JArr []) (Some (Callback 0))"]
    required_arguments[of "UpdateMeeting Undefined (JObj [(''displayName'', JStr ''x'')]) None"]
  by simp

subsection \<open>What the callback receives\<close>

text \<open>
  C5, as stated, fails: when the transport succeeds, \<open>resendInvitation\<close> calls the callback
  with no argument at all, so its first argument is \<open>undefined\<close> and not \<open>null\<close>.
\<close>

theorem resend_success_counterexample:
  "settled (resendInvitation (JStr ''d:cam:abc'') (JStr ''a@b.org'') (Some (Callback 0)))
     (Succeeded (JStr ''ok''))
   = Inr ([Invoked 0 []], None)"
  by (simp add: settled_def resendInvitation_def)

text \<open>
  C5, amended: for every operation called with a callback, once the transport completes the
  request the callback is called exactly once and nothing is thrown; the handlers issue no
  request of their own. On success the callback receives \<open>null\<close> and the raw response body
  from \<open>getMeeting\<close>, \<open>createMeeting\<close>, \<open>updateMeeting\<close>, \<open>getMembers\<close>,
  \<open>shareMeeting\<close>, \<open>getLibrary\<close>, \<open>infoMeeting\<close>, \<open>getRecording\<close>,
  \<open>updateRecording\<close>, \<open>deleteRecording\<close> and \<open>getInvitations\<close>; \<open>null\<close> alone from
  \<open>startMeeting\<close>, \<open>deleteMeeting\<close>, \<open>updateMembers\<close>, \<open>deleteMeetingFromLibrary\<close>
  and \<open>endMeeting\<close>; and no argument from \<open>resendInvitation\<close>. On failure with status S
  and body B it receives \<open>{code: S, msg: B}\<close>, followed by \<open>null\<close> from \<open>infoMeeting\<close>,
  \<open>getRecording\<close>, \<open>updateRecording\<close> and \<open>deleteRecording\<close> and alone from the others.
\<close>

theorem callback_results:
  assumes "callback_arg c = Some (Callback k)"
  shows "(settled (exports c) (Failed x) = Inr run \<longrightarrow>
            snd run = None \<and> invocations (fst run) = [(k, failure_arguments c x)])
       \<and> (settled (exports c) (Succeeded d) = Inr run \<longrightarrow>
            snd run = None \<and> invocations (fst run) = [(k, success_arguments c d)])"
  using assms
  by (cases c)
     (auto simp: settled_def op_defs Let_def and_then_def console_info_def
           split: if_splits sum.splits)

theorem callback_results_witness:
  "callback_arg (GetRecording (JStr ''d:cam:abc'') (Some (Callback 7))) = Some (Callback 7)
   \<and> settled (exports (GetRecording (JStr ''d:cam:abc'') (Some (Callback 7))))
        (Failed \<lparr>status = 404, responseText = ''none''\<rparr>)
      = Inr ([Invoked 7 [JObj [(''code'', JNum 404), (''msg'', JStr ''none'')], Null],
              ConsoleInfo ''No recording found''], None)
   \<and> settled (exports (GetRecording (JStr ''d:cam:abc'') (Some (Callback 7))))
        (Succeeded (JArr []))
      = Inr ([ConsoleInfo ''Success'', Invoked 7 [Null, JArr []]], None)
   \<and> invocations [Invoked 7 [JObj [(''code'', JNum 404), (''msg'', JStr ''none'')], Null],
              ConsoleInfo ''No recording found'']
      = [(7, failure_arguments (GetRecording (JStr ''d:cam:abc'') (Some (Callback 7)))
               \<lparr>status = 404, responseText = ''none''\<rparr>)]
   \<and> invocations [ConsoleInfo ''Success'', Invoked 7 [Null, JArr []]]
      = [(7, success_arguments (GetRecording (JStr ''d:cam:abc'') (Some (Callback 7)))
               (JArr []))]"
  using callback_results[of "GetRecording (JStr ''d:cam:abc'') (Some (Callback 7))" 7
      "\<lparr>status = 404, responseText = ''none''\<rparr>"
      "([Invoked 7 [JObj [(''code'', JNum 404), (''msg'', JStr ''none'')], Null],
         ConsoleInfo ''No recording found''], None)" "JArr []"]
    callback_results[of "GetRecording (JStr ''d:cam:abc'') (Some (Callback 7))" 7
      "\<lparr>status = 404, responseText = ''none''\<rparr>"
      "([ConsoleInfo ''Success'', Invoked 7 [Null, JArr []]], None)" "JArr []"]
  by (simp add: settled_def getRecording_def and_then_def console_info_def err_object_def)

subsection \<open>The publish flag\<close>

text \<open>
  C10: for every recording id (a value that passes the check of the id) and every boolean
  \<open>publish\<close>, \<open>updateRecording\<close> issues a PATCH request to the recording whose data is
  \<open>{publish: !publish}\<close>: the flag on the wire is the negation of the argument.
\<close>

theorem update_recording_publish:
  "truthy recordingId \<Longrightarrow>
   \<exists>r. updateRecording recordingId (JBool b) cb = Inr r
      \<and> url r = [JStr ''/api/recording/'', recordingId]
      \<and> type r = Some ''PATCH''
      \<and> data r = JObj [(''publish'', JBool (\<not> b))]"
  by (simp add: updateRecording_def Let_def)

theorem update_recording_publish_witness:
  "truthy (JStr ''r1'')
   \<and> (\<exists>r. updateRecording (JStr ''r1'') (JBool True) None = Inr r
        \<and> url r = [JStr ''/api/recording/'', JStr ''r1'']
        \<and> type r = Some ''PATCH''
        \<and> data r = JObj [(''publish'', JBool False)])"
  using update_recording_publish[of "JStr ''r1''" True None]
  by simp


section \<open>Properties of the page controller\<close>

subsection \<open>Meeting id and base url\<close>

lemma split_no_separator: "c \<notin> set s \<Longrightarrow> split c s = [s]"
  by (induction s) auto

lemma split_at_separator: "c \<notin> set a \<Longrightarrow> split c (a @ c # b) = a # split c b"
  by (induction a) auto

lemma strip_trailing:
  "s \<noteq> [] \<Longrightarrow> last s \<noteq> c \<Longrightarrow> rev (dropWhile (\<lambda>x. x = c) (rev s)) = s"
  by (cases s rule: rev_cases) auto

lemma meeting_path_segments:
  assumes t: "CHR ''/'' \<notin> set tenant" and r: "CHR ''/'' \<notin> set resource"
    and ne: "resource \<noteq> []"
  shows "path_segments (''/meeting/'' @ tenant @ ''/'' @ resource)
         = [''meeting'', tenant, resource]"
proof -
  let ?body = "''meeting'' @ CHR ''/'' # tenant @ CHR ''/'' # resource"
  have lead: "dropWhile (\<lambda>c. c = CHR ''/'') (''/meeting/'' @ tenant @ ''/'' @ resource) = ?body"
    by simp
  have "last ?body = last resource" using ne by simp
  moreover have "last resource \<in> set resource" using ne by simp
  ultimately have "last ?body \<noteq> CHR ''/''" using r by metis
  then have trail: "rev (dropWhile (\<lambda>c. c = CHR ''/'') (rev ?body)) = ?body"
    by (intro strip_trailing) simp_all
  have "split (CHR ''/'') ?body = ''meeting'' # split (CHR ''/'') (tenant @ CHR ''/'' # resource)"
    by (rule split_at_separator) simp
  also have "split (CHR ''/'') (tenant @ CHR ''/'' # resource)
             = tenant # split (CHR ''/'') resource"
    using t by (rule split_at_separator)
  also have "split (CHR ''/'') resource = [resource]"
    using r by (rule split_no_separator)
  finally show ?thesis
    unfolding path_segments_def lead trail .
qed

lemma members_path_segments:
  "path_segments ''/meeting/cam/abc/members/'' = [''meeting'', ''cam'', ''abc'', ''members'']"
  by (simp add: path_segments_def)

text \<open>
  C8: for every location whose second and third path segments are a tenant and a resource,
  the controller's meeting id is \<open>d:<tenant>:<resource>\<close> and its base url is
  \<open>/meeting/<tenant>/<resource>\<close>, whatever else the path holds; and a location
  \<open>/meeting/<tenant>/<resource>\<close> (neither part contains a slash and the resource is not
  empty) has exactly that tenant and that resource as its second and third segment.
\<close>

theorem meeting_identity:
  "(segment loc 2 = Some tenant \<and> segment loc 3 = Some resource \<longrightarrow>
      meetingId loc = ''d:'' @ tenant @ '':'' @ resource
      \<and> baseUrl loc = ''/meeting/'' @ tenant @ ''/'' @ resource)
   \<and> (CHR ''/'' \<notin> set t \<and> CHR ''/'' \<notin> set r \<and> r \<noteq> [] \<longrightarrow>
        segment (''/meeting/'' @ t @ ''/'' @ r) 2 = Some t
        \<and> segment (''/meeting/'' @ t @ ''/'' @ r) 3 = Some r)"
proof (intro conjI impI)
  assume "segment loc 2 = Some tenant \<and> segment loc 3 = Some resource"
  then show "meetingId loc = ''d:'' @ tenant @ '':'' @ resource"
    and "baseUrl loc = ''/meeting/'' @ tenant @ ''/'' @ resource"
    by (simp_all add: meetingId_def baseUrl_def)
next
  assume h: "CHR ''/'' \<notin> set t \<and> CHR ''/'' \<notin> set r \<and> r \<noteq> []"
  then have "path_segments (''/meeting/'' @ t @ ''/'' @ r) = [''meeting'', t, r]"
    by (intro meeting_path_segments) simp_all
  then show "segment (''/meeting/'' @ t @ ''/'' @ r) 2 = Some t"
    and "segment (''/meeting/'' @ t @ ''/'' @ r) 3 = Some r"
    by (simp_all add: segment_def Let_def numeral_2_eq_2 numeral_3_eq_3)
qed

theorem meeting_identity_witness:
  "segment ''/meeting/cam/abc/members/'' 2 = Some ''cam''
   \<and> segment ''/meeting/cam/abc/members/'' 3 = Some ''abc''
   \<and> meetingId ''/meeting/cam/abc/members/'' = ''d:cam:abc''
   \<and> baseUrl ''/meeting/cam/abc/members/'' = ''/meeting/cam/abc''
   \<and> CHR ''/'' \<notin> set ''cam'' \<and> CHR ''/'' \<notin> set ''abc'' \<and> ''abc'' \<noteq> []
   \<and> meetingId ''/meeting/cam/abc'' = ''d:cam:abc''
   \<and> baseUrl ''/meeting/cam/abc'' = ''/meeting/cam/abc''"
proof -
  have s: "segment ''/meeting/cam/abc/members/'' 2 = Some ''cam''
     \<and> segment ''/meeting/cam/abc/members/'' 3 = Some ''abc''"
    by (simp add: segment_def members_path_segments numeral_2_eq_2 numeral_3_eq_3)
  have c: "CHR ''/'' \<notin> set ''cam'' \<and> CHR ''/'' \<notin> set ''abc'' \<and> ''abc'' \<noteq> []"
    by simp
  from c meeting_identity[of "''/meeting/cam/abc''" "''cam''" "''abc''" "''cam''" "''abc''"]
  have "meetingId ''/meeting/cam/abc'' = ''d:cam:abc''
     \<and> baseUrl ''/meeting/cam/abc'' = ''/meeting/cam/abc''"
    by simp
  with s c meeting_identity[of "''/meeting/cam/abc/members/''" "''cam''" "''abc''"]
  show ?thesis by simp
qed

subsection \<open>The sample page\<close>

lemma sample_page_eq:
  "sample_page =
     \<lparr> heap = sample_heap, me_id = JStr ''u:cam:me'', path = ''/meeting/cam/abc'',
       meetingProfile = Some 1, lhNavPages = Some (JStr ''Weekly'', Some 1),
       contextGet = True, subscribed = True, widgetContainer = [], clipContainer = [Some 1],
       trace = [Render (Some 1),
                TriggerLhNavigation (JStr ''Weekly'') (Some 1) (baseUrl ''/meeting/cam/abc''),
                OnLhNavigationReady, OnContextGet,
                Trigger [JStr ''oae.context.send''] (Some 1), ShowPage,
                Subscribe (meetingId ''/meeting/cam/abc'') (JStr ''s1'')] \<rparr>"
  by (simp add: sample_page_def getMeeting_callback_def loading_def setUpClip_def render_def
      log_def setUpNavigation_def get_field_def field_def sample_heap_def then_run_def
      setUpContext_def setUpPushNotifications_def)

lemma sample_page_fields:
  "heap sample_page = sample_heap"
  "me_id sample_page = JStr ''u:cam:me''"
  "meetingProfile sample_page = Some 1"
  "contextGet sample_page"
  by (simp_all add: sample_page_eq)

lemma sample_activity_fields:
  "actor_id sample_activity = ''u:cam:other''"
  "activityType sample_activity = ''meeting-update''"
  "object sample_activity = 2"
  "actor_id own_activity = ''u:cam:me''"
  "activityType own_activity = ''meeting-update''"
  "object own_activity = 2"
  by (simp_all add: sample_activity_def own_activity_def)

subsection \<open>Loading the profile\<close>

text \<open>
  C6: when the initial fetch fails, the client hands the callback the error object of the
  failed request and nothing else; the callback then redirects to the access-denied page if
  the status is 401 and to the not-found page for any other status, and does nothing more:
  the state is the one before with that one redirect added, so no summary is rendered, no
  navigation or context responder is registered, the page is not revealed and no push
  subscription is made.
\<close>

theorem initial_load_failure:
  "settled (getMeeting (JStr (meetingId p)) (Some (Callback k))) (Failed x)
     = Inr ([Invoked k [err_object x]], None)
   \<and> getMeeting_callback (err_object x) None st
     = Inr (st\<lparr>trace := trace st
                 @ [Redirect (if status x = 401 then accessdenied else notfound)]\<rparr>)"
  by (simp add: settled_def getMeeting_def and_then_def meetingId_def
      getMeeting_callback_def err_object_def log_def)

theorem initial_load_failure_witness:
  "getMeeting_callback (err_object \<lparr>status = 401, responseText = ''no''\<rparr>) None
     (loading ''/meeting/cam/abc'' (JStr ''u:cam:me'') sample_heap)
   = Inr ((loading ''/meeting/cam/abc'' (JStr ''u:cam:me'') sample_heap)
            \<lparr>trace := [Redirect accessdenied]\<rparr>)
   \<and> getMeeting_callback (err_object \<lparr>status = 404, responseText = ''no''\<rparr>) None
     (loading ''/meeting/cam/abc'' (JStr ''u:cam:me'') sample_heap)
   = Inr ((loading ''/meeting/cam/abc'' (JStr ''u:cam:me'') sample_heap)
            \<lparr>trace := [Redirect notfound]\<rparr>)"
  using initial_load_failure[of "''/meeting/cam/abc''" 0
      "\<lparr>status = 401, responseText = ''no''\<rparr>"
      "loading ''/meeting/cam/abc'' (JStr ''u:cam:me'') sample_heap"]
    initial_load_failure[of "''/meeting/cam/abc''" 0
      "\<lparr>status = 404, responseText = ''no''\<rparr>"
      "loading ''/meeting/cam/abc'' (JStr ''u:cam:me'') sample_heap"]
  by (simp add: loading_def)

subsection \<open>The context responder\<close>

text \<open>
  C7: loading a profile registers the responder and, right after registering it, broadcasts
  the profile once on \<open>oae.context.send\<close>. From then on a context request without a
  widget id is answered with one broadcast of the current profile on \<open>oae.context.send\<close>,
  and a request naming a widget W with one event on \<open>oae.context.send.W\<close> and none on the
  broadcast channel.
\<close>

theorem context_responder:
  "setUpContext st =
     st\<lparr>contextGet := True,
        trace := trace st @ [OnContextGet, Trigger [JStr ''oae.context.send''] (meetingProfile st)]\<rparr>
   \<and> (\<exists>st'. getMeeting_callback Null (Some p) st0 = Inr st'
          \<and> contextGet st' \<and> meetingProfile st' = Some p
          \<and> trace st' = trace st0 @
              [Render (Some p),
               TriggerLhNavigation (field (heap st0 p) ''displayName'') (Some p) (baseUrl (path st0)),
               OnLhNavigationReady,
               OnContextGet, Trigger [JStr ''oae.context.send''] (Some p),
               ShowPage,
               Subscribe (meetingId (path st0)) (field (heap st0 p) ''signature'')])
   \<and> (contextGet st \<and> \<not> truthy widgetId \<longrightarrow>
        on_context_get widgetId st =
          st\<lparr>trace := trace st @ [Trigger [JStr ''oae.context.send''] (meetingProfile st)]\<rparr>)
   \<and> (contextGet st \<and> W \<noteq> [] \<longrightarrow>
        on_context_get (JStr W) st =
          st\<lparr>trace := trace st
                @ [Trigger [JStr ''oae.context.send.'', JStr W] (meetingProfile st)]\<rparr>)"
  by (simp add: setUpContext_def on_context_get_def log_def getMeeting_callback_def
      setUpNavigation_def setUpClip_def render_def get_field_def then_run_def
      setUpPushNotifications_def)

theorem context_responder_witness:
  "contextGet sample_page \<and> \<not> truthy Undefined \<and> ''comments'' \<noteq> []
   \<and> trace (on_context_get Undefined sample_page)
       = trace sample_page @ [Trigger [JStr ''oae.context.send''] (Some 1)]
   \<and> trace (on_context_get (JStr ''comments'') sample_page)
       = trace sample_page @ [Trigger [JStr ''oae.context.send.'', JStr ''comments''] (Some 1)]"
  using context_responder[of sample_page 1 sample_page Undefined "''comments''"]
  by (simp add: sample_page_fields)

subsection \<open>Refreshing the profile\<close>

lemma field_update: "field (AList.update k v obj) k' = (if k' = k then v else field obj k')"
  by (simp add: field_def update_conv')

lemma copy_field_loaded:
  "meetingProfile st = Some p \<Longrightarrow>
   copy_field k obj st = Inr (set_field obj k (field (heap st p) k) st)"
  by (simp add: copy_field_def get_field_def)

lemma set_field_simps [simp]:
  "meetingProfile (set_field a k v st) = meetingProfile st"
  "trace (set_field a k v st) = trace st"
  "me_id (set_field a k v st) = me_id st"
  "heap (set_field a k v st) = (heap st)(a := AList.update k v (heap st a))"
  by (simp_all add: set_field_def)

lemmas refresh_defs = on_editmeeting_done_def refreshMeetingProfile_def
  refreshMeetingTopic_def setUpClip_def render_def insertWidget_def empty_def log_def

lemma refresh_simps:
  "meetingProfile (trigger_editmeeting_done u st) = u"
  "heap (trigger_editmeeting_done u st) = heap st"
  "trace (trigger_editmeeting_done u st) =
     trace st @ [Trigger [JStr ''oae.editmeeting.done''] u, Empty, InsertWidget ''meeting'' u,
                 Render u]"
  by (simp_all add: trigger_editmeeting_done_def refresh_defs)

lemma on_push_qualifying:
  assumes "meetingProfile st = Some p" and "JStr (actor_id a) \<noteq> me_id st"
    and "activityType a \<in> set supportedActivities"
  shows "on_push (a # rest) st =
     Inr (trigger_editmeeting_done (Some (object a))
       (let s1 = set_field (object a) ''canShare'' (field (heap st p) ''canShare'') st;
            s2 = set_field (object a) ''canPost'' (field (heap s1 p) ''canPost'') s1
        in set_field (object a) ''isManager'' (field (heap s2 p) ''isManager'') s2))"
  using assms by (simp add: then_run_def copy_field_loaded Let_def)

text \<open>
  C9: handling the edit-done event twice with the same profile leaves the cached profile,
  the store, the clip and the widget container as they were after the first time, and the
  container then holds exactly one widget instance, the meeting widget configured with that
  profile: the container is emptied before each insertion.
\<close>

theorem refresh_idempotent:
  "meetingProfile (on_editmeeting_done u (on_editmeeting_done u st))
     = meetingProfile (on_editmeeting_done u st)
   \<and> meetingProfile (on_editmeeting_done u st) = u
   \<and> heap (on_editmeeting_done u (on_editmeeting_done u st)) = heap (on_editmeeting_done u st)
   \<and> clipContainer (on_editmeeting_done u (on_editmeeting_done u st))
     = clipContainer (on_editmeeting_done u st)
   \<and> widgetContainer (on_editmeeting_done u (on_editmeeting_done u st))
     = widgetContainer (on_editmeeting_done u st)
   \<and> widgetContainer (on_editmeeting_done u (on_editmeeting_done u st)) = [(''meeting'', u)]"
  by (simp add: refresh_defs)

theorem refresh_idempotent_witness:
  "widgetContainer (on_editmeeting_done (Some 2) (on_editmeeting_done (Some 2) sample_page))
     = [(''meeting'', Some 2)]
   \<and> meetingProfile (on_editmeeting_done (Some 2) (on_editmeeting_done (Some 2) sample_page))
     = Some 2"
  using refresh_idempotent[of "Some 2" sample_page] by metis

subsection \<open>Push notifications\<close>

text \<open>
  C1: of a push batch only the first activity counts. If its actor is the viewing user, or
  its activity type is neither \<open>meeting-update\<close> nor \<open>meeting-update-visibility\<close>, nothing
  happens at all. If its actor is another user and its type is one of the two, then (a
  profile being loaded) the handler triggers \<open>oae.editmeeting.done\<close> once with the
  activity's object, and the one refresh that follows makes that object the cached profile,
  empties and refills the widget container and renders the clip, each once.
\<close>

theorem push_filtering:
  "on_push (a # rest) st = on_push [a] st
   \<and> (JStr (actor_id a) = me_id st
        \<or> activityType a \<notin> {''meeting-update'', ''meeting-update-visibility''}
      \<longrightarrow> on_push (a # rest) st = Inr st)
   \<and> (JStr (actor_id a) \<noteq> me_id st
        \<and> activityType a \<in> {''meeting-update'', ''meeting-update-visibility''}
        \<and> meetingProfile st \<noteq> None
      \<longrightarrow> (\<exists>st'. on_push (a # rest) st = Inr st'
             \<and> meetingProfile st' = Some (object a)
             \<and> trace st' = trace st @
                 [Trigger [JStr ''oae.editmeeting.done''] (Some (object a)),
                  Empty, InsertWidget ''meeting'' (Some (object a)), Render (Some (object a))]))"
proof (intro conjI impI)
  show "on_push (a # rest) st = on_push [a] st" by simp
next
  assume "JStr (actor_id a) = me_id st
        \<or> activityType a \<notin> {''meeting-update'', ''meeting-update-visibility''}"
  then show "on_push (a # rest) st = Inr st"
    by (auto simp: supportedActivities_def)
next
  assume h: "JStr (actor_id a) \<noteq> me_id st
        \<and> activityType a \<in> {''meeting-update'', ''meeting-update-visibility''}
        \<and> meetingProfile st \<noteq> None"
  then obtain p where p: "meetingProfile st = Some p" by auto
  from h have m: "activityType a \<in> set supportedActivities"
    by (auto simp: supportedActivities_def)
  from h have d: "JStr (actor_id a) \<noteq> me_id st" by simp
  show "\<exists>st'. on_push (a # rest) st = Inr st'
             \<and> meetingProfile st' = Some (object a)
             \<and> trace st' = trace st @
                 [Trigger [JStr ''oae.editmeeting.done''] (Some (object a)),
                  Empty, InsertWidget ''meeting'' (Some (object a)), Render (Some (object a))]"
    unfolding on_push_qualifying[OF p d m] by (simp add: refresh_simps Let_def)
qed

theorem push_filtering_witness:
  "JStr (actor_id sample_activity) \<noteq> me_id sample_page
   \<and> activityType sample_activity \<in> {''meeting-update'', ''meeting-update-visibility''}
   \<and> meetingProfile sample_page \<noteq> None
   \<and> meetingProfile (final (on_push [sample_activity, own_activity] sample_page)) = Some 2
   \<and> JStr (actor_id own_activity) = me_id sample_page
   \<and> on_push [own_activity, sample_activity] sample_page = Inr sample_page"
proof -
  have h: "JStr (actor_id sample_activity) \<noteq> me_id sample_page
     \<and> activityType sample_activity \<in> {''meeting-update'', ''meeting-update-visibility''}
     \<and> meetingProfile sample_page \<noteq> None"
    by (simp add: sample_page_fields sample_activity_fields)
  with push_filtering[of sample_activity "[own_activity]" sample_page]
  obtain st' where "on_push [sample_activity, own_activity] sample_page = Inr st'"
    and "meetingProfile st' = Some (object sample_activity)"
    by blast
  then have r: "meetingProfile (final (on_push [sample_activity, own_activity] sample_page))
                = Some 2"
    by (simp add: sample_activity_fields)
  have g: "JStr (actor_id own_activity) = me_id sample_page"
    by (simp add: sample_page_fields sample_activity_fields)
  with push_filtering[of own_activity "[sample_activity]" sample_page]
  have "on_push [own_activity, sample_activity] sample_page = Inr sample_page"
    by blast
  with h r g show ?thesis by blast
qed

text \<open>
  C2, as stated, fails on the push path: the handler copies \<open>canShare\<close>, \<open>canPost\<close> and
  \<open>isManager\<close> from the old profile into the incoming object before it becomes the current
  profile. In the sample the old profile can share and the incoming object cannot; the new
  current profile can, and it has gained \<open>canPost\<close> and \<open>isManager\<close>.
\<close>

theorem wholesale_replacement_counterexample:
  "meetingProfile sample_page = Some 1
   \<and> field (heap sample_page 1) ''canShare'' = JBool True
   \<and> heap sample_page (object sample_activity)
       = [(''id'', JStr ''d:cam:abc''), (''displayName'', JStr ''Monthly''),
          (''canShare'', JBool False)]
   \<and> current_profile (final (on_push [sample_activity] sample_page))
       = Some [(''id'', JStr ''d:cam:abc''), (''displayName'', JStr ''Monthly''),
               (''canShare'', JBool True), (''canPost'', JBool True),
               (''isManager'', JBool True)]"
  by (simp add: sample_page_eq sample_activity_def supportedActivities_def then_run_def
      copy_field_def get_field_def field_def sample_heap_def set_field_def current_profile_def
      refresh_simps)

text \<open>
  C2, amended: a refresh triggered by an edit-done event replaces the cached profile
  wholesale with the incoming one and writes to no object. A refresh triggered by a
  qualifying push notification, in the loaded state, makes the activity's object the cached
  profile after overwriting its \<open>canShare\<close>, \<open>canPost\<close> and \<open>isManager\<close> with those of
  the old profile; every other field of the new profile is the incoming object's, and no
  other object changes.
\<close>

theorem refresh_replaces:
  "meetingProfile (on_editmeeting_done u st) = u
   \<and> heap (on_editmeeting_done u st) = heap st
   \<and> (meetingProfile st = Some p \<and> JStr (actor_id a) \<noteq> me_id st
        \<and> activityType a \<in> {''meeting-update'', ''meeting-update-visibility''}
      \<longrightarrow> (\<exists>st'. on_push (a # rest) st = Inr st'
             \<and> meetingProfile st' = Some (object a)
             \<and> (\<forall>k. field (heap st' (object a)) k =
                   (if k \<in> {''canShare'', ''canPost'', ''isManager''} then field (heap st p) k
                    else field (heap st (object a)) k))
             \<and> (\<forall>r. r \<noteq> object a \<longrightarrow> heap st' r = heap st r)))"
proof (intro conjI impI)
  show "meetingProfile (on_editmeeting_done u st) = u"
    by (simp add: refresh_defs)
  show "heap (on_editmeeting_done u st) = heap st"
    by (simp add: refresh_defs)
next
  assume h: "meetingProfile st = Some p \<and> JStr (actor_id a) \<noteq> me_id st
        \<and> activityType a \<in> {''meeting-update'', ''meeting-update-visibility''}"
  then have p: "meetingProfile st = Some p" and d: "JStr (actor_id a) \<noteq> me_id st"
    and m: "activityType a \<in> set supportedActivities"
    by (auto simp: supportedActivities_def)
  show "\<exists>st'. on_push (a # rest) st = Inr st'
             \<and> meetingProfile st' = Some (object a)
             \<and> (\<forall>k. field (heap st' (object a)) k =
                   (if k \<in> {''canShare'', ''canPost'', ''isManager''} then field (heap st p) k
                    else field (heap st (object a)) k))
             \<and> (\<forall>r. r \<noteq> object a \<longrightarrow> heap st' r = heap st r)"
    unfolding on_push_qualifying[OF p d m]
    by (simp add: refresh_simps Let_def field_update)
qed

theorem refresh_replaces_witness:
  "meetingProfile sample_page = Some 1
   \<and> JStr (actor_id sample_activity) \<noteq> me_id sample_page
   \<and> activityType sample_activity \<in> {''meeting-update'', ''meeting-update-visibility''}
   \<and> field (heap (final (on_push [sample_activity] sample_page)) 2) ''isManager'' = JBool True
   \<and> field (heap (final (on_push [sample_activity] sample_page)) 2) ''displayName''
       = JStr ''Monthly''"
proof -
  have h: "meetingProfile sample_page = Some 1
     \<and> JStr (actor_id sample_activity) \<noteq> me_id sample_page
     \<and> activityType sample_activity \<in> {''meeting-update'', ''meeting-update-visibility''}"
    by (simp add: sample_page_fields sample_activity_fields)
  with refresh_replaces[of "Some 2" sample_page 1 sample_activity "[]"]
  obtain st' where st': "on_push [sample_activity] sample_page = Inr st'"
    and f: "\<And>k. field (heap st' (object sample_activity)) k =
             (if k \<in> {''canShare'', ''canPost'', ''isManager''} then field (heap sample_page 1) k
              else field (heap sample_page (object sample_activity)) k)"
    by blast
  have "field (heap st' 2) ''isManager'' = JBool True"
    using f[of "''isManager''"]
    by (simp add: sample_page_fields sample_activity_fields field_def sample_heap_def)
  moreover have "field (heap st' 2) ''displayName'' = JStr ''Monthly''"
    using f[of "''displayName''"]
    by (simp add: sample_page_fields sample_activity_fields field_def sample_heap_def)
  ultimately show ?thesis using h st' by simp
qed

end
